theory Spec2Isabelle
  imports Main
begin

section \<open>The JavaScript runtime the console relies on\<close>

text \<open>
  A JavaScript string is modelled as a \<^typ>\<open>string\<close>: one \<^typ>\<open>char\<close> per code unit, which
  covers the code units below 256. \<open>undefined\<close> and \<open>null\<close> are \<^term>\<open>None\<close>.
\<close>

subsection \<open>Truthiness, trimming, slicing\<close>

text \<open>\<open>!v\<close> for a value that is a string, \<open>undefined\<close> or \<open>null\<close>: the empty string is falsy.\<close>

definition falsy :: "string option \<Rightarrow> bool" where
  "falsy v = (case v of None \<Rightarrow> True | Some s \<Rightarrow> s = [])"

definition truthy :: "string option \<Rightarrow> bool" where
  "truthy v = (case v of None \<Rightarrow> False | Some s \<Rightarrow> s \<noteq> [])"

text \<open>\<open>v || d\<close> where \<open>d\<close> is a string.\<close>

definition or_else :: "string option \<Rightarrow> string \<Rightarrow> string" where
  "or_else v d = (case v of None \<Rightarrow> d | Some s \<Rightarrow> if s = [] then d else s)"

text \<open>\<open>v || null\<close>.\<close>

definition or_null :: "string option \<Rightarrow> string option" where
  "or_null v = (case v of None \<Rightarrow> None | Some s \<Rightarrow> if s = [] then None else Some s)"

text \<open>
  The white space and line terminators \<open>String.prototype.trim\<close> strips, among the code
  units below 256: TAB, LF, VT, FF, CR, SPACE and NBSP.
\<close>

definition js_whitespace :: "char \<Rightarrow> bool" where
  "js_whitespace c = (c \<in> set [CHR 0x09, CHR 0x0A, CHR 0x0B, CHR 0x0C, CHR 0x0D, CHR 0x20, CHR 0xA0])"

definition trim :: "string \<Rightarrow> string" where
  "trim s = rev (dropWhile js_whitespace (rev (dropWhile js_whitespace s)))"

definition startsWith :: "string \<Rightarrow> string \<Rightarrow> bool" where
  "startsWith s p = (take (length p) s = p)"

definition endsWith :: "string \<Rightarrow> string \<Rightarrow> bool" where
  "endsWith s p = (length p \<le> length s \<and> drop (length s - length p) s = p)"

text \<open>\<open>s.slice(1, -1)\<close>: from index 1 up to, not including, the last code unit.\<close>

definition slice_1_m1 :: "string \<Rightarrow> string" where
  "slice_1_m1 s = drop 1 (take (length s - 1) s)"

subsection \<open>Regular expressions: the backtracking matcher\<close>

text \<open>
  The fragment of ECMAScript patterns the tokenizer's expression uses, without the
  \<open>u\<close> and \<open>i\<close> flags: character classes, sequence, alternation, quantifiers (greedy and
  lazy, with a minimum and an optional maximum), capturing groups and backreferences.
  \<open>Chars False cs\<close> is the class \<open>[cs]\<close> and \<open>Chars True cs\<close> is \<open>[^cs]\<close>.
\<close>

datatype regex =
    Eps
  | Chars bool "char list"
  | Seq regex regex
  | Alt regex regex
  | Rep nat "nat option" bool regex
  | Group nat regex
  | Backref nat

text \<open>The captures set so far, the newest first; a group that is not listed is \<open>undefined\<close>.\<close>

type_synonym captures = "(nat \<times> string) list"

text \<open>A matcher state: the input that is left, and the captures.\<close>

type_synonym mstate = "string \<times> captures"

fun rsize :: "regex \<Rightarrow> nat" where
  "rsize Eps = 1"
| "rsize (Chars neg cs) = 1"
| "rsize (Seq r1 r2) = rsize r1 + rsize r2 + 1"
| "rsize (Alt r1 r2) = rsize r1 + rsize r2 + 1"
| "rsize (Rep mn mx g r) = rsize r + mn + 1"
| "rsize (Group n r) = rsize r + 1"
| "rsize (Backref n) = 1"

fun groups :: "regex \<Rightarrow> nat list" where
  "groups Eps = []"
| "groups (Chars neg cs) = []"
| "groups (Seq r1 r2) = groups r1 @ groups r2"
| "groups (Alt r1 r2) = groups r1 @ groups r2"
| "groups (Rep mn mx g r) = groups r"
| "groups (Group n r) = n # groups r"
| "groups (Backref n) = []"

definition clear :: "nat list \<Rightarrow> captures \<Rightarrow> captures" where
  "clear gs caps = filter (\<lambda>p. fst p \<notin> set gs) caps"

text \<open>
  \<open>rmatch r st\<close> lists the states in which a match of \<open>r\<close> from \<open>st\<close> can end, in the
  order in which the backtracking matcher of ECMAScript tries them: its result is the
  first one that the rest of the pattern accepts. A quantifier clears the captures of
  the groups inside it before every iteration, refuses an iteration that consumes
  nothing once the minimum is reached, and stops at its maximum; a greedy one tries one
  more iteration before stopping, a lazy one stops first. A backreference to a group
  that is \<open>undefined\<close> matches the empty string. The length tests in \<open>Seq\<close> and \<open>Rep\<close> always
  hold (lemma \<open>rmatch_suffix\<close>); they are there for the termination proof.
\<close>

function rmatch :: "regex \<Rightarrow> mstate \<Rightarrow> mstate list" where
  "rmatch Eps st = [st]"
| "rmatch (Chars neg cs) st =
     (case fst st of
        [] \<Rightarrow> []
      | c # t \<Rightarrow> if (c \<in> set cs) \<noteq> neg then [(t, snd st)] else [])"
| "rmatch (Seq r1 r2) st =
     concat (map (\<lambda>st'. if length (fst st') \<le> length (fst st) then rmatch r2 st' else [])
                 (rmatch r1 st))"
| "rmatch (Alt r1 r2) st = rmatch r1 st @ rmatch r2 st"
| "rmatch (Group n r) st =
     map (\<lambda>st'. (fst st', (n, take (length (fst st) - length (fst st')) (fst st)) # snd st'))
         (rmatch r st)"
| "rmatch (Backref n) st =
     (case map_of (snd st) n of
        None \<Rightarrow> [st]
      | Some w \<Rightarrow>
          if take (length w) (fst st) = w then [(drop (length w) (fst st), snd st)] else [])"
| "rmatch (Rep mn mx g r) st =
     (if mx = Some 0 then [st]
      else
        let more = concat (map (\<lambda>st'.
                      if mn = 0 \<and> length (fst st') = length (fst st) then []
                      else if length (fst st') < length (fst st)
                              \<or> (length (fst st') = length (fst st) \<and> 0 < mn)
                           then rmatch (Rep (mn - 1) (map_option (\<lambda>k. k - 1) mx) g r) st'
                           else [])
                    (rmatch r (fst st, clear (groups r) (snd st))))
        in if 0 < mn then more else if g then more @ [st] else [st] @ more)"
  by pat_completeness auto
termination
  by (relation "inv_image (less_than <*lex*> less_than) (\<lambda>(r, st). (length (fst st), rsize r))")
     auto

text \<open>
  \<open>String.prototype.matchAll\<close> with a global expression, on the input from the current
  \<open>lastIndex\<close> on: each match is the whole matched text with its captures. When the
  expression does not match at an index, the search moves one code unit on; after a
  match, \<open>lastIndex\<close> is the end of the match, or one code unit further when the match is
  empty; the iteration ends when \<open>lastIndex\<close> passes the end of the input.
\<close>

function matchAll :: "regex \<Rightarrow> string \<Rightarrow> (string \<times> captures) list" where
  "matchAll r s =
     (case rmatch r (s, []) of
        [] \<Rightarrow> (case s of [] \<Rightarrow> [] | c # t \<Rightarrow> matchAll r t)
      | st # _ \<Rightarrow>
          (take (length s - length (fst st)) s, snd st) #
          (if length (fst st) < length s then matchAll r (fst st)
           else (case s of [] \<Rightarrow> [] | c # t \<Rightarrow> matchAll r t)))"
  by pat_completeness auto
termination
  by (relation "measure (\<lambda>(r, s). length s)") auto

section \<open>The tokenizer\<close>

text \<open>\<open>interface Arg { flag: string | undefined; value: string | undefined }\<close>\<close>

record Arg =
  flag :: "string option"
  val :: "string option"

text \<open>
  The expression of \<open>commandLineParser\<close> in \<open>index.ts\<close>, as the string literal denotes it:
  \<^verbatim>\<open> *(?:-+([^= '"]+)[= ]?)?(?:(['"])([^\2]+?)\2|([^- "']+))?\<close>
  Inside a class, \<open>\2\<close> is the octal escape for the code unit 2; outside, it is the
  backreference to group 2.
\<close>

definition argRegex :: regex where
  "argRegex =
     Seq (Rep 0 None True (Chars False [CHR '' '']))
    (Seq (Rep 0 (Some 1) True
            (Seq (Rep 1 None True (Chars False [CHR ''-'']))
            (Seq (Group 1 (Rep 1 None True
                    (Chars True [CHR ''='', CHR '' '', CHR 0x27, CHR 0x22])))
                 (Rep 0 (Some 1) True (Chars False [CHR ''='', CHR '' ''])))))
         (Rep 0 (Some 1) True
            (Alt (Seq (Group 2 (Chars False [CHR 0x27, CHR 0x22]))
                 (Seq (Group 3 (Rep 1 None False (Chars True [CHR 0x02])))
                      (Backref 2)))
                 (Group 4 (Rep 1 None True
                    (Chars True [CHR ''-'', CHR '' '', CHR 0x22, CHR 0x27]))))))"

text \<open>
  \<open>commandLineParser\<close> of \<open>index.ts\<close>: a match whose whole text is empty is skipped; every
  other match gives one \<open>Arg\<close>, its flag group 1 and its value group 3 when the quote
  (group 2) is set, group 4 otherwise.
\<close>

definition commandLineParser :: "string \<Rightarrow> Arg list" where
  "commandLineParser command =
     map (\<lambda>mt. \<lparr>flag = map_of (snd mt) 1,
                 val = (if truthy (map_of (snd mt) 2) then map_of (snd mt) 3
                        else map_of (snd mt) 4)\<rparr>)
         (filter (\<lambda>mt. fst mt \<noteq> []) (matchAll argRegex command))"

text \<open>The same function as \<open>cli_chat.ts\<close> declares it, with its own expression.\<close>

definition argRegex_cli_chat :: regex where
  "argRegex_cli_chat =
     Seq (Rep 0 None True (Chars False [CHR '' '']))
    (Seq (Rep 0 (Some 1) True
            (Seq (Rep 1 None True (Chars False [CHR ''-'']))
            (Seq (Group 1 (Rep 1 None True
                    (Chars True [CHR ''='', CHR '' '', CHR 0x27, CHR 0x22])))
                 (Rep 0 (Some 1) True (Chars False [CHR ''='', CHR '' ''])))))
         (Rep 0 (Some 1) True
            (Alt (Seq (Group 2 (Chars False [CHR 0x27, CHR 0x22]))
                 (Seq (Group 3 (Rep 1 None False (Chars True [CHR 0x02])))
                      (Backref 2)))
                 (Group 4 (Rep 1 None True
                    (Chars True [CHR ''-'', CHR '' '', CHR 0x22, CHR 0x27]))))))"

definition commandLineParser_cli_chat :: "string \<Rightarrow> Arg list" where
  "commandLineParser_cli_chat command =
     map (\<lambda>mt. \<lparr>flag = map_of (snd mt) 1,
                 val = (if truthy (map_of (snd mt) 2) then map_of (snd mt) 3
                        else map_of (snd mt) 4)\<rparr>)
         (filter (\<lambda>mt. fst mt \<noteq> []) (matchAll argRegex_cli_chat command))"

section \<open>The collaborator, and the effects of the console\<close>

text \<open>
  The messaging library (Wechaty) and the terminal are outside the repository. Every
  call into them is recorded as an event, in the order in which the program makes it, so
  that a run of a function is the list of its events together with its outcome: a value,
  or the error it throws.
\<close>

datatype error = Error string

text \<open>An argument of \<open>console.log\<close>.\<close>

datatype jsval = Str string | Undefined | Thrown error

definition jsval_of :: "string option \<Rightarrow> jsval" where
  "jsval_of v = (case v of None \<Rightarrow> Undefined | Some s \<Rightarrow> Str s)"

text \<open>A contact with its \<open>id\<close>, \<open>name()\<close> and \<open>alias()\<close>; a room with its \<open>id\<close> and \<open>topic()\<close>.\<close>

record Contact =
  contact_id :: string
  contact_name :: string
  contact_alias :: "string option"

record Room =
  room_id :: string
  room_topic :: string

text \<open>\<open>new RegExp(pattern, flags)\<close>: the object keeps the pattern and the flags it was built from.\<close>

datatype regexp = RegExp string string

text \<open>
  The queries of the directory: \<open>findAll()\<close>, and \<open>{name: c}\<close>, \<open>{alias: c}\<close>, \<open>{topic: c}\<close> where
  \<open>c\<close> is a string or a regular expression.
\<close>

datatype criterion = Exact string | Matching regexp

datatype query = Everything | ByName criterion | ByAlias criterion | ByTopic criterion

text \<open>An inbound message, as \<open>respond\<close> reads it: \<open>room()\<close>, \<open>self()\<close> and \<open>listener()\<close>.\<close>

record Message =
  room :: "Room option"
  self :: bool
  listener :: "Contact option"

text \<open>The object whose \<open>say\<close> is called.\<close>

datatype sayer = OnRoom Room | OnContact Contact | OnMessage Message

datatype call = ContactFind query | ContactFindAll query | RoomFind query | RoomFindAll query

text \<open>The rows of \<open>console.table\<close>: \<open>(id, alias, name)\<close> of a contact, \<open>(id, topic)\<close> of a room.\<close>

datatype table = ContactRows "(string \<times> string \<times> string) list" | RoomRows "(string \<times> string) list"

datatype event =
    Log "jsval list"
  | Table table
  | Lookup call
  | Say sayer string
  | Prompt

text \<open>
  What the collaborator and the runtime answer. A lookup or a \<open>say\<close> may throw.
  \<open>RegExp_error pattern flags\<close> is the \<open>SyntaxError\<close> of \<open>new RegExp(pattern, flags)\<close>, if it
  throws one; \<open>RegExp_source\<close> is the \<open>source\<close> property.
\<close>

record env =
  Contact_find :: "query \<Rightarrow> error + Contact option"
  Contact_findAll :: "query \<Rightarrow> error + Contact list"
  Room_find :: "query \<Rightarrow> error + Room option"
  Room_findAll :: "query \<Rightarrow> error + Room list"
  say_result :: "sayer \<Rightarrow> string \<Rightarrow> error + unit"
  RegExp_error :: "string \<Rightarrow> string \<Rightarrow> error option"
  RegExp_source :: "regexp \<Rightarrow> string"

type_synonym 'a io = "event list \<times> (error + 'a)"

definition io_return :: "'a \<Rightarrow> 'a io" where
  "io_return a = ([], Inr a)"

definition io_throw :: "error \<Rightarrow> 'a io" where
  "io_throw e = ([], Inl e)"

text \<open>Sequencing: what follows an \<open>await\<close> or a statement runs only if that one did not throw.\<close>

definition io_bind :: "'a io \<Rightarrow> ('a \<Rightarrow> 'b io) \<Rightarrow> 'b io" where
  "io_bind p f =
     (case snd p of
        Inl e \<Rightarrow> (fst p, Inl e)
      | Inr a \<Rightarrow> (fst p @ fst (f a), snd (f a)))"

text \<open>\<open>try { p } catch (e) { h e }\<close>\<close>

definition io_catch :: "'a io \<Rightarrow> (error \<Rightarrow> 'a io) \<Rightarrow> 'a io" where
  "io_catch p h =
     (case snd p of
        Inl e \<Rightarrow> (fst p @ fst (h e), snd (h e))
      | Inr a \<Rightarrow> p)"

text \<open>
  \<open>await Promise.all([p, q])\<close>: both are started, in this order, and the result is both
  values, or the error of the first of the two that failed. The events of \<open>p\<close> are
  listed before those of \<open>q\<close>.
\<close>

definition Promise_all2 :: "'a io \<Rightarrow> 'b io \<Rightarrow> ('a \<times> 'b) io" where
  "Promise_all2 p q =
     (fst p @ fst q,
      case snd p of
        Inl e \<Rightarrow> Inl e
      | Inr a \<Rightarrow> (case snd q of Inl e \<Rightarrow> Inl e | Inr b \<Rightarrow> Inr (a, b)))"

text \<open>\<open>this.log\<close> (and \<open>console.log\<close>, which the console redirects to it) and \<open>this.table\<close>.\<close>

definition log :: "jsval list \<Rightarrow> unit io" where
  "log args = ([Log args], Inr ())"

definition table :: "table \<Rightarrow> unit io" where
  "table rows = ([Table rows], Inr ())"

definition say :: "env \<Rightarrow> sayer \<Rightarrow> string \<Rightarrow> unit io" where
  "say env who text = ([Say who text], say_result env who text)"

definition find_Contact :: "env \<Rightarrow> query \<Rightarrow> (Contact option) io" where
  "find_Contact env q = ([Lookup (ContactFind q)], Contact_find env q)"

definition findAll_Contact :: "env \<Rightarrow> query \<Rightarrow> (Contact list) io" where
  "findAll_Contact env q = ([Lookup (ContactFindAll q)], Contact_findAll env q)"

definition find_Room :: "env \<Rightarrow> query \<Rightarrow> (Room option) io" where
  "find_Room env q = ([Lookup (RoomFind q)], Room_find env q)"

definition findAll_Room :: "env \<Rightarrow> query \<Rightarrow> (Room list) io" where
  "findAll_Room env q = ([Lookup (RoomFindAll q)], Room_findAll env q)"

definition new_RegExp :: "env \<Rightarrow> string \<Rightarrow> string \<Rightarrow> regexp io" where
  "new_RegExp env pattern flags =
     (case RegExp_error env pattern flags of
        None \<Rightarrow> io_return (RegExp pattern flags)
      | Some e \<Rightarrow> io_throw e)"

definition is_lookup :: "event \<Rightarrow> bool" where
  "is_lookup ev = (case ev of Lookup c \<Rightarrow> True | _ \<Rightarrow> False)"

definition is_say :: "event \<Rightarrow> bool" where
  "is_say ev = (case ev of Say who text \<Rightarrow> True | _ \<Rightarrow> False)"

definition is_output :: "event \<Rightarrow> bool" where
  "is_output ev = (case ev of Log args \<Rightarrow> True | Table rows \<Rightarrow> True | _ \<Rightarrow> False)"

section \<open>The reply-target resolver\<close>

text \<open>\<open>respond\<close> of \<open>index.ts\<close>.\<close>

definition respond :: "env \<Rightarrow> Message \<Rightarrow> string \<Rightarrow> unit io" where
  "respond env ctx response =
     (case room ctx of
        Some r \<Rightarrow> say env (OnRoom r) response
      | None \<Rightarrow>
          if self ctx then
            (case listener ctx of
               None \<Rightarrow> io_throw (Error ''Message target cannot be resolved'')
             | Some l \<Rightarrow> say env (OnContact l) response)
          else say env (OnMessage ctx) response)"

text \<open>\<open>respond\<close> of \<open>cli_chat.ts\<close>.\<close>

definition respond_cli_chat :: "env \<Rightarrow> Message \<Rightarrow> string \<Rightarrow> unit io" where
  "respond_cli_chat env ctx response =
     (case room ctx of
        Some r \<Rightarrow> say env (OnRoom r) response
      | None \<Rightarrow>
          if self ctx then
            (case listener ctx of
               None \<Rightarrow> io_throw (Error ''Message target cannot be resolved'')
             | Some l \<Rightarrow> say env (OnContact l) response)
          else say env (OnMessage ctx) response)"

section \<open>Sending\<close>

text \<open>\<open>sendMessage\<close> of \<open>index.ts\<close>; \<open>targetInstance\<close> is the room or the contact found, if any.\<close>

definition sendMessage :: "env \<Rightarrow> string \<Rightarrow> string \<Rightarrow> string \<Rightarrow> unit io" where
  "sendMessage env targetType target message =
     io_bind
       (if targetType = ''room''
        then io_bind (find_Room env (ByTopic (Exact target)))
               (\<lambda>found. io_return (map_option OnRoom found))
        else io_bind (find_Contact env (ByName (Exact target)))
               (\<lambda>found. io_return (map_option OnContact found)))
       (\<lambda>targetInstance.
          case targetInstance of
            None \<Rightarrow>
              log [Str (''Error: '' @ targetType @ '' '' @ [CHR 0x22] @ target @ [CHR 0x22]
                        @ '' not found.'')]
          | Some who \<Rightarrow> say env who message)"

section \<open>Searching\<close>

text \<open>The characters that \<open>/[.*+?^${}()|[\]\\]/g\<close> matches; \<open>CHR 0x5C\<close> is the backslash.\<close>

definition metachars :: "char list" where
  "metachars = ''.*+?^${}()|[]'' @ [CHR 0x5C]"

text \<open>\<open>pattern.replace(/[.*+?^${}()|[\]\\]/g, '\\$&')\<close>: a backslash before each of them.\<close>

definition escapeRegExp :: "string \<Rightarrow> string" where
  "escapeRegExp pattern =
     concat (map (\<lambda>c. if c \<in> set metachars then [CHR 0x5C, c] else [c]) pattern)"

text \<open>
  What an expression source matches literally, when it is made only of characters that
  stand for themselves and of escaped syntax characters (ECMAScript's \<open>PatternCharacter\<close>
  and \<open>IdentityEscape\<close> of a \<open>SyntaxCharacter\<close>); \<open>None\<close> for any other source.
\<close>

fun literal_of :: "string \<Rightarrow> string option" where
  "literal_of [] = Some []"
| "literal_of (c # s) =
     (if c = CHR 0x5C then
        (case s of
           [] \<Rightarrow> None
         | d # s' \<Rightarrow> if d \<in> set metachars then map_option ((#) d) (literal_of s') else None)
      else if c \<in> set metachars then None
      else map_option ((#) c) (literal_of s))"

text \<open>
  The first statement of \<open>search\<close>: the expression to search with, or \<open>None\<close> when the
  function has reported an invalid expression and returned.
\<close>

definition searchRegex :: "env \<Rightarrow> string \<Rightarrow> (regexp option) io" where
  "searchRegex env pattern =
     (if startsWith pattern ''/'' \<and> endsWith pattern ''/'' then
        io_catch
          (io_bind (new_RegExp env (slice_1_m1 pattern) ''i'') (\<lambda>regex. io_return (Some regex)))
          (\<lambda>err. io_bind (log [Str ''Invalid regular expression.'']) (\<lambda>_. io_return None))
      else
        io_bind (new_RegExp env (escapeRegExp pattern) ''i'') (\<lambda>regex. io_return (Some regex)))"

text \<open>
  \<open>truncate(str, maxLength)\<close> (every record has a \<open>truncate\<close> of its own, hence the
  name); \<open>substring\<close> reads a negative end as 0.
\<close>

definition truncate_str :: "string \<Rightarrow> nat \<Rightarrow> string" where
  "truncate_str str maxLength =
     (if length str > maxLength then take (maxLength - 3) str @ ''...'' else str)"

definition maxTableColumnCharNum :: nat where
  "maxTableColumnCharNum = 35"

definition truncateFixed :: "string \<Rightarrow> string" where
  "truncateFixed str = truncate_str str maxTableColumnCharNum"

definition contact_row :: "Contact \<Rightarrow> string \<times> string \<times> string" where
  "contact_row contact =
     (truncateFixed (contact_id contact),
      truncateFixed (or_else (contact_alias contact) []),
      truncateFixed (contact_name contact))"

definition room_row :: "Room \<Rightarrow> string \<times> string" where
  "room_row r = (truncateFixed (room_id r), truncateFixed (or_else (Some (room_topic r)) []))"

text \<open>\<open>Array.from(new Set(xs))\<close>: the first occurrence of each element, in order.\<close>

fun dedup :: "'a list \<Rightarrow> 'a list" where
  "dedup [] = []"
| "dedup (x # xs) = x # dedup (filter (\<lambda>y. y \<noteq> x) xs)"

text \<open>
  The contact block of \<open>search\<close>. Its result says whether the function goes on after
  the block: \<open>False\<close> is the \<open>return\<close> inside the block.
\<close>

definition searchContacts :: "env \<Rightarrow> regexp \<Rightarrow> bool io" where
  "searchContacts env regex =
     io_bind (log [Str (''Searching contacts using '' @ RegExp_source env regex @ '' ...'')]) (\<lambda>_.
     io_bind (Promise_all2 (findAll_Contact env (ByName (Matching regex)))
                           (findAll_Contact env (ByAlias (Matching regex)))) (\<lambda>foundContacts.
       if list_all (\<lambda>resultArr. length resultArr = 0) [fst foundContacts, snd foundContacts]
       then io_bind (log [Str ''No matching contacts found :('']) (\<lambda>_. io_return False)
       else
         let mergedContacts = dedup (fst foundContacts @ snd foundContacts);
             contactsData = map contact_row mergedContacts
         in if length contactsData > 0
            then io_bind (log [Str ''- Matched Contacts:'']) (\<lambda>_.
                 io_bind (table (ContactRows contactsData)) (\<lambda>_. io_return True))
            else io_bind (log [Str ''No matching contacts found :('']) (\<lambda>_. io_return True)))"

text \<open>The room block of \<open>search\<close>.\<close>

definition searchRooms :: "env \<Rightarrow> regexp \<Rightarrow> unit io" where
  "searchRooms env regex =
     io_bind (log [Str (''Searching rooms using '' @ RegExp_source env regex @ '' ...'')]) (\<lambda>_.
     io_bind (findAll_Room env (ByTopic (Matching regex))) (\<lambda>matchedRooms.
       let roomsData = map room_row matchedRooms
       in if length roomsData > 0
          then io_bind (log [Str ''- Matched Rooms:'']) (\<lambda>_. table (RoomRows roomsData))
          else log [Str ''No matching rooms found :('']))"

text \<open>\<open>CLI.search\<close>; \<open>targetType\<close> is \<open>null\<close> (\<open>None\<close>) or the string the command line gave.\<close>

definition search :: "env \<Rightarrow> string \<Rightarrow> string option \<Rightarrow> unit io" where
  "search env pattern targetType =
     io_bind (searchRegex env pattern) (\<lambda>compiled.
       case compiled of
         None \<Rightarrow> io_return ()
       | Some regex \<Rightarrow>
           io_bind (if falsy targetType \<or> targetType = Some ''contact''
                    then searchContacts env regex else io_return True) (\<lambda>goes_on.
             if goes_on then
               (if falsy targetType \<or> targetType = Some ''room''
                then searchRooms env regex else io_return ())
             else io_return ()))"

section \<open>The command dispatcher\<close>

definition availableCommands :: "string list" where
  "availableCommands = [''send'', ''ls'', ''search'']"

fun join :: "string \<Rightarrow> string list \<Rightarrow> string" where
  "join sep [] = []"
| "join sep [x] = x"
| "join sep (x # y # ys) = x @ sep @ join sep (y # ys)"

definition usage_help :: string where
  "usage_help = ''Usage: help <command>'' @ [CHR 0x0A] @ ''Available commands: ''
                @ join '', '' availableCommands"

definition usage_send :: string where
  "usage_send = ''Usage: send <target> -t <room|contact> -m <message>''"

definition usage_ls :: string where
  "usage_ls = ''Usage: ls [--contact | -c | --room | -r]''"

definition usage_search :: string where
  "usage_search = ''Usage: search <pattern> [-t | --targetType <room|contact>]''"

definition usages :: "string \<Rightarrow> jsval" where
  "usages k =
     (if k = ''help'' then Str usage_help
      else if k = ''send'' then Str usage_send
      else if k = ''ls'' then Str usage_ls
      else if k = ''search'' then Str usage_search
      else Undefined)"

text \<open>
  The loop of the \<open>send\<close> branch over \<open>args[1..]\<close>, with the three variables it assigns;
  its value is their final values.
\<close>

fun send_args ::
  "Arg list \<Rightarrow> string option \<Rightarrow> string \<Rightarrow> string option
     \<Rightarrow> (string option \<times> string \<times> string option) io" where
  "send_args [] target targetType message = io_return (target, targetType, message)"
| "send_args (arg # rest) target targetType message =
     (if flag arg = Some ''t'' \<or> flag arg = Some ''targetType'' then
        send_args rest target (or_else (val arg) ''contact'') message
      else if flag arg = Some ''m'' \<or> flag arg = Some ''message'' then
        send_args rest target targetType (Some (or_else (val arg) []))
      else if falsy (flag arg) \<and> falsy target then
        send_args rest (Some (or_else (val arg) [])) targetType message
      else
        io_bind (log [Str ''Unknown option or too many targets:'', jsval_of (val arg)]) (\<lambda>_.
        io_bind (log [Str usage_send]) (\<lambda>_.
        send_args rest target targetType message)))"

text \<open>
  The \<open>send\<close> branch. Where \<open>sendMessage\<close> is called, \<open>target\<close> and \<open>message\<close> are non-empty
  strings, which \<open>or_else\<close> reads off.
\<close>

definition send_command :: "env \<Rightarrow> Arg list \<Rightarrow> unit io" where
  "send_command env args =
     io_bind (send_args (drop 1 args) None ''contact'' None) (\<lambda>(target, targetType, message).
       if falsy target \<or> falsy message then log [Str usage_send]
       else
         io_catch (sendMessage env targetType (or_else target []) (or_else message []))
                  (\<lambda>err. log [Str ''Error sending message:'', Thrown err]))"

text \<open>\<open>const { flag, value } = { ...args[1] }\<close>: both \<open>undefined\<close> when there is no \<open>args[1]\<close>.\<close>

definition second_arg :: "Arg list \<Rightarrow> string option \<times> string option" where
  "second_arg args = (case drop 1 args of [] \<Rightarrow> (None, None) | a # _ \<Rightarrow> (flag a, val a))"

definition help_command :: "Arg list \<Rightarrow> unit io" where
  "help_command args =
     (case or_null (fst (second_arg args)) of
        Some f \<Rightarrow>
          io_bind (log [Str (''Unexpected flag '' @ f)]) (\<lambda>_. log [Str usage_help])
      | None \<Rightarrow>
          (case or_null (snd (second_arg args)) of
             None \<Rightarrow> log [Str usage_help]
           | Some v \<Rightarrow>
               if v \<notin> set availableCommands then
                 io_bind (log [Str (''Unknown command '' @ v @ [CHR 0x0A])]) (\<lambda>_.
                 log [Str usage_help])
               else log [usages v]))"

text \<open>
  \<open>getAllRooms\<close> and \<open>getAllContacts\<close> of the \<open>ls\<close> branch, each cut at its \<open>await\<close> of the
  directory: what it does until it waits, and what it does with the answer.
\<close>

definition getAllRooms_start :: "env \<Rightarrow> (Room list) io" where
  "getAllRooms_start env =
     io_bind (log [Str ''Getting the list of all rooms...'']) (\<lambda>_.
     findAll_Room env Everything)"

definition getAllRooms_rest :: "Room list \<Rightarrow> unit io" where
  "getAllRooms_rest allRooms =
     io_bind (log [Str ''- List of Group Chats (Rooms):'']) (\<lambda>_.
     table (RoomRows (map room_row allRooms)))"

definition getAllRooms :: "env \<Rightarrow> unit io" where
  "getAllRooms env = io_bind (getAllRooms_start env) getAllRooms_rest"

definition getAllContacts_start :: "env \<Rightarrow> (Contact list) io" where
  "getAllContacts_start env =
     io_bind (log [Str ''Getting the list of all contacts...'']) (\<lambda>_.
     findAll_Contact env Everything)"

definition getAllContacts_rest :: "Contact list \<Rightarrow> unit io" where
  "getAllContacts_rest allContacts =
     io_bind (log [Str ''- List of Contacts:'']) (\<lambda>_.
     table (ContactRows (map contact_row allContacts)))"

definition getAllContacts :: "env \<Rightarrow> unit io" where
  "getAllContacts env = io_bind (getAllContacts_start env) getAllContacts_rest"

text \<open>
  \<open>await Promise.all([getAllRooms(), getAllContacts()])\<close>: both are started, so each has
  logged and called \<open>findAll\<close> before either answer arrives; each then renders its answer,
  unless its lookup threw, whatever the other does. Which answer arrives first is the
  directory's choice: the rooms are rendered first here. The outcome is the error of a
  listing that failed, if one did.
\<close>

definition both_listings :: "env \<Rightarrow> unit io" where
  "both_listings env =
     (let rooms = getAllRooms_start env;
          contacts = getAllContacts_start env;
          rooms_done = io_bind ([], snd rooms) getAllRooms_rest;
          contacts_done = io_bind ([], snd contacts) getAllContacts_rest
      in (fst rooms @ fst contacts @ fst rooms_done @ fst contacts_done,
          case snd rooms_done of
            Inl e \<Rightarrow> Inl e
          | Inr _ \<Rightarrow> (case snd contacts_done of Inl e \<Rightarrow> Inl e | Inr _ \<Rightarrow> Inr ())))"

text \<open>The \<open>ls\<close> branch.\<close>

definition ls_command :: "env \<Rightarrow> Arg list \<Rightarrow> unit io" where
  "ls_command env args =
     (case or_null (snd (second_arg args)) of
        Some v \<Rightarrow>
          io_bind (log [Str (''Unexpected argument '' @ v
                             @ ''. You should specify a flag instead of an argument.'')]) (\<lambda>_.
          log [Str usage_ls])
      | None \<Rightarrow>
          (case or_null (fst (second_arg args)) of
             None \<Rightarrow> both_listings env
           | Some f \<Rightarrow>
               if f = ''contact'' \<or> f = ''c'' then getAllContacts env
               else if f = ''room'' \<or> f = ''r'' then getAllRooms env
               else io_bind (log [Str (''Invalid flag '' @ f)]) (\<lambda>_. log [Str usage_ls])))"

text \<open>
  The loop of the \<open>search\<close> branch over \<open>args[1..]\<close>, with the two variables it assigns.
  Its value is \<open>None\<close> when the loop has reported a token and returned from
  \<open>processCommand\<close>, their final values otherwise.
\<close>

fun search_args ::
  "Arg list \<Rightarrow> string option \<Rightarrow> string option
     \<Rightarrow> ((string option \<times> string option) option) io" where
  "search_args [] pattern targetType = io_return (Some (pattern, targetType))"
| "search_args (arg # rest) pattern targetType =
     (if flag arg = Some ''t'' \<or> flag arg = Some ''targetType'' then
        search_args rest pattern (or_null (val arg))
      else if falsy (flag arg) \<and> falsy pattern then
        search_args rest (Some (or_else (val arg) [])) targetType
      else
        io_bind (log [Str ''Unknown option or too many patterns:'', jsval_of (val arg)]) (\<lambda>_.
        io_bind (log [Str usage_search]) (\<lambda>_.
        io_return None)))"

text \<open>The \<open>search\<close> branch; \<open>pattern\<close> is a non-empty string where \<open>search\<close> is called.\<close>

definition search_command :: "env \<Rightarrow> Arg list \<Rightarrow> unit io" where
  "search_command env args =
     io_bind (search_args (drop 1 args) None None) (\<lambda>vars.
       case vars of
         None \<Rightarrow> io_return ()
       | Some (pattern, targetType) \<Rightarrow>
           if falsy pattern then
             io_bind (log [Str ''Please provide a search pattern.'']) (\<lambda>_.
             log [Str usage_search])
           else
             io_catch (search env (or_else pattern []) targetType)
                      (\<lambda>err. log [Str ''Error during search:'', Thrown err]))"

text \<open>\<open>CLI.processCommand\<close> of \<open>index.ts\<close>, from the tokens on, and on a line.\<close>

definition processArgs :: "env \<Rightarrow> Arg list \<Rightarrow> unit io" where
  "processArgs env args =
     (case args of
        [] \<Rightarrow> io_return ()
      | first # _ \<Rightarrow>
          let command = val first in
          if command = Some ''send'' then send_command env args
          else if command = Some ''help'' then help_command args
          else if command = Some ''ls'' then ls_command env args
          else if command = Some ''search'' then search_command env args
          else log [Str ''Unknown command:'', jsval_of command])"

definition processCommand :: "env \<Rightarrow> string \<Rightarrow> unit io" where
  "processCommand env line = processArgs env (commandLineParser (trim line))"


text \<open>What the \<open>search\<close> command can render, and the tokens that set its target type.\<close>

definition is_table :: "event \<Rightarrow> bool" where
  "is_table ev = (case ev of Table rows \<Rightarrow> True | _ \<Rightarrow> False)"

definition is_no_match :: "event \<Rightarrow> bool" where
  "is_no_match ev =
     (ev = Log [Str ''No matching contacts found :(''] \<or> ev = Log [Str ''No matching rooms found :(''])"

definition targetType_flags :: "Arg list \<Rightarrow> Arg list" where
  "targetType_flags args =
     filter (\<lambda>arg. flag arg = Some ''t'' \<or> flag arg = Some ''targetType'') args"

section \<open>Two lines on the console\<close>







section \<open>An example collaborator\<close>

text \<open>
  A directory with one contact and one room, and a runtime, for the concrete runs
  below. The directory understands the expressions that are literal text (\<open>literal_of\<close>):
  the name, alias or topic must contain that text, whatever the case of the letters
  \<open>A\<close> to \<open>Z\<close> when the flags have \<open>i\<close>; the empty expression matches everything. It finds
  nothing for any other expression. A \<open>find\<close> compares exactly. Every pattern compiles,
  and the \<open>source\<close> of an expression is its pattern with a backslash before each slash
  that has none, \<open>(?:)\<close> for the empty pattern.
\<close>

definition adam :: Contact where
  "adam = \<lparr>contact_id = ''@c1'', contact_name = ''Adam'', contact_alias = None\<rparr>"

definition family :: Room where
  "family = \<lparr>room_id = ''@@r1'', room_topic = ''Family''\<rparr>"

fun contains :: "string \<Rightarrow> string \<Rightarrow> bool" where
  "contains [] p = (p = [])"
| "contains (c # s) p = (startsWith (c # s) p \<or> contains s p)"

definition lower :: "char \<Rightarrow> char" where
  "lower c = (let n = (of_char c :: nat) in if 65 \<le> n \<and> n \<le> 90 then char_of (n + 32) else c)"

definition meets :: "criterion \<Rightarrow> string \<Rightarrow> bool" where
  "meets c text =
     (case c of
        Exact s \<Rightarrow> text = s
      | Matching re \<Rightarrow>
          (case re of RegExp p f \<Rightarrow>
             (case literal_of p of
                None \<Rightarrow> False
              | Some lit \<Rightarrow>
                  if CHR ''i'' \<in> set f then contains (map lower text) (map lower lit)
                  else contains text lit)))"

definition demo_contacts :: "query \<Rightarrow> Contact list" where
  "demo_contacts q =
     (case q of
        Everything \<Rightarrow> [adam]
      | ByName c \<Rightarrow> filter (\<lambda>x. meets c (contact_name x)) [adam]
      | ByAlias c \<Rightarrow>
          filter (\<lambda>x. case contact_alias x of None \<Rightarrow> False | Some a \<Rightarrow> meets c a) [adam]
      | ByTopic c \<Rightarrow> [])"

definition demo_rooms :: "query \<Rightarrow> Room list" where
  "demo_rooms q =
     (case q of
        Everything \<Rightarrow> [family]
      | ByTopic c \<Rightarrow> filter (\<lambda>x. meets c (room_topic x)) [family]
      | _ \<Rightarrow> [])"

definition first_of :: "'a list \<Rightarrow> 'a option" where
  "first_of xs = (case xs of [] \<Rightarrow> None | x # _ \<Rightarrow> Some x)"

fun escape_slashes :: "string \<Rightarrow> string" where
  "escape_slashes [] = []"
| "escape_slashes [c] = (if c = CHR ''/'' then [CHR 0x5C, c] else [c])"
| "escape_slashes (c # d # s) =
     (if c = CHR 0x5C then c # d # escape_slashes s
      else if c = CHR ''/'' then CHR 0x5C # c # escape_slashes (d # s)
      else c # escape_slashes (d # s))"

definition demo_env :: env where
  "demo_env =
     \<lparr>Contact_find = (\<lambda>q. Inr (first_of (demo_contacts q))),
      Contact_findAll = (\<lambda>q. Inr (demo_contacts q)),
      Room_find = (\<lambda>q. Inr (first_of (demo_rooms q))),
      Room_findAll = (\<lambda>q. Inr (demo_rooms q)),
      say_result = (\<lambda>who text. Inr ()),
      RegExp_error = (\<lambda>pattern flags. None),
      RegExp_source =
        (\<lambda>re. case re of RegExp p f \<Rightarrow> if p = [] then ''(?:)'' else escape_slashes p)\<rparr>"

section \<open>Theorems\<close>

subsection \<open>The matcher never reads past its input\<close>

lemma rmatch_suffix:
  "st' \<in> set (rmatch r st) \<Longrightarrow> \<exists>p. fst st = p @ fst st'"
proof (induction r st arbitrary: st' rule: rmatch.induct)
  case (1 st)
  then show ?case by simp
next
  case (2 neg cs st)
  then show ?case by (cases "fst st") (auto split: if_splits)
next
  case (3 r1 r2 st)
  from "3.prems" obtain st1 where a: "st1 \<in> set (rmatch r1 st)"
    and b: "length (fst st1) \<le> length (fst st)" and c: "st' \<in> set (rmatch r2 st1)"
    by (auto split: if_splits)
  from "3.IH"(1)[OF a] obtain p where p: "fst st = p @ fst st1" by blast
  from "3.IH"(2)[OF a b c] obtain q where q: "fst st1 = q @ fst st'" by blast
  from p q have "fst st = (p @ q) @ fst st'" by simp
  then show ?case by blast
next
  case (4 r1 r2 st)
  from "4.prems" have "st' \<in> set (rmatch r1 st) \<or> st' \<in> set (rmatch r2 st)" by simp
  then show ?case using "4.IH" by blast
next
  case (5 n r st)
  from "5.prems" obtain st1 where a: "st1 \<in> set (rmatch r st)" and b: "fst st' = fst st1"
    by auto
  from "5.IH"[OF a] b show ?case by simp
next
  case (6 n st)
  show ?case
  proof (cases "map_of (snd st) n")
    case None
    with "6.prems" show ?thesis by simp
  next
    case (Some w)
    with "6.prems" have "fst st' = drop (length w) (fst st)"
      by (auto split: if_splits)
    then have "fst st = take (length w) (fst st) @ fst st'" by simp
    then show ?thesis by blast
  qed
next
  case (7 mn mx g r st)
  note eq = rmatch.simps(7)[of mn mx g r st]
  show ?case
  proof (cases "mx = Some 0")
    case True
    have "rmatch (Rep mn mx g r) st = [st]"
      unfolding eq using True by (simp del: rmatch.simps)
    with "7.prems" show ?thesis by (simp del: rmatch.simps)
  next
    case False
    let ?inner = "rmatch r (fst st, clear (groups r) (snd st))"
    let ?next = "Rep (mn - 1) (map_option (\<lambda>k. k - 1) mx) g r"
    let ?f = "\<lambda>st1.
                      if mn = 0 \<and> length (fst st1) = length (fst st) then []
                      else if length (fst st1) < length (fst st)
                              \<or> (length (fst st1) = length (fst st) \<and> 0 < mn)
                           then rmatch ?next st1
                           else []"
    let ?more = "concat (map ?f ?inner)"
    have "rmatch (Rep mn mx g r) st =
            (if 0 < mn then ?more else if g then ?more @ [st] else [st] @ ?more)"
      unfolding eq using False by (simp del: rmatch.simps add: Let_def)
    with "7.prems" have
      "st' \<in> set (if 0 < mn then ?more else if g then ?more @ [st] else [st] @ ?more)"
      by (simp only:)
    then have "st' \<in> set ?more \<or> st' = st"
      by (cases "0 < mn"; cases g) (simp_all del: rmatch.simps, blast+)
    then show ?thesis
    proof
      assume "st' = st"
      then show ?thesis by simp
    next
      assume "st' \<in> set ?more"
      then obtain st1 where m1: "st1 \<in> set ?inner" and m5: "st' \<in> set (?f st1)"
        unfolding set_concat set_map by blast
      have m2: "\<not> (mn = 0 \<and> length (fst st1) = length (fst st))"
      proof
        assume "mn = 0 \<and> length (fst st1) = length (fst st)"
        with m5 show False by (simp del: rmatch.simps)
      qed
      have m3: "length (fst st1) < length (fst st) \<or> (length (fst st1) = length (fst st) \<and> 0 < mn)"
      proof (rule ccontr)
        assume "\<not> ?thesis"
        with m2 m5 show False by (auto simp del: rmatch.simps split: if_splits)
      qed
      from m2 m3 m5 have m4: "st' \<in> set (rmatch ?next st1)"
        by (simp del: rmatch.simps split: if_splits)
      from "7.IH"(1)[OF False m1] obtain p where p: "fst st = p @ fst st1"
        by (auto simp del: rmatch.simps)
      from "7.IH"(2)[OF False m1 m2 m3 m4]
      obtain q where q: "fst st1 = q @ fst st'" by blast
      from p q have "fst st = (p @ q) @ fst st'" by simp
      then show ?thesis by blast
    qed
  qed
qed

lemma tokenize_empty: "commandLineParser [] = []"
  by code_simp

subsection \<open>The loops of the dispatcher\<close>

lemma truthy_not_falsy: "truthy v = (\<not> falsy v)"
  by (simp add: truthy_def falsy_def split: option.splits)

lemma send_args_total:
  "\<exists>vars. snd (send_args args target targetType message) = Inr vars"
  by (induction args arbitrary: target targetType message)
     (simp_all add: io_return_def io_bind_def log_def)

lemma send_args_only_logs:
  "list_all (\<lambda>ev. \<not> is_lookup ev \<and> \<not> is_say ev) (fst (send_args args target targetType message))"
  by (induction args arbitrary: target targetType message)
     (simp_all add: io_return_def io_bind_def log_def is_lookup_def is_say_def)

lemma send_args_append:
  "send_args (xs @ ys) target targetType message =
     io_bind (send_args xs target targetType message)
       (\<lambda>(target', targetType', message'). send_args ys target' targetType' message')"
proof (induction xs arbitrary: target targetType message)
  case Nil
  show ?case by (simp add: io_return_def io_bind_def)
next
  case (Cons a xs)
  show ?case
    using send_args_total[of xs target targetType message]
    by (auto simp add: Cons.IH io_bind_def log_def split: sum.splits prod.splits)
qed

lemma send_args_after:
  assumes "snd (send_args pre t0 tt0 m0) = Inr (target, targetType, message)"
  shows "send_args (pre @ rest) t0 tt0 m0
           = (fst (send_args pre t0 tt0 m0) @ fst (send_args rest target targetType message),
              snd (send_args rest target targetType message))"
  using assms by (simp add: send_args_append io_bind_def)

lemma search_args_silent:
  "snd (search_args args pattern targetType) = Inr (Some v)
     \<Longrightarrow> fst (search_args args pattern targetType) = []"
proof (induction args arbitrary: pattern targetType)
  case Nil
  show ?case by (simp add: io_return_def)
next
  case (Cons a args)
  show ?case
  proof (cases "flag a = Some ''t'' \<or> flag a = Some ''targetType''")
    case True
    with Cons.prems have "snd (search_args args pattern (or_null (val a))) = Inr (Some v)"
      by simp
    from Cons.IH[OF this] True show ?thesis by simp
  next
    case False
    note nt = False
    show ?thesis
    proof (cases "falsy (flag a) \<and> falsy pattern")
      case True
      with nt Cons.prems
      have "snd (search_args args (Some (or_else (val a) [])) targetType) = Inr (Some v)"
        by simp
      from Cons.IH[OF this] nt True show ?thesis by simp
    next
      case False
      with nt Cons.prems show ?thesis
        by (simp add: io_return_def io_bind_def log_def)
    qed
  qed
qed

lemma search_args_total:
  "\<exists>vars. snd (search_args args pattern targetType) = Inr vars"
  by (induction args arbitrary: pattern targetType)
     (simp_all add: io_return_def io_bind_def log_def)

lemma search_args_renders_no_result:
  "list_all (\<lambda>ev. \<not> is_lookup ev \<and> \<not> is_table ev \<and> \<not> is_no_match ev)
     (fst (search_args args pattern targetType))"
  by (induction args arbitrary: pattern targetType)
     (simp_all add: io_return_def io_bind_def log_def is_lookup_def is_table_def is_no_match_def
        usage_search_def)

lemma search_args_targetType:
  "snd (search_args args pattern targetType) = Inr (Some (pattern', targetType'))
     \<Longrightarrow> targetType' = (if targetType_flags args = [] then targetType
                        else or_null (val (last (targetType_flags args))))"
proof (induction args arbitrary: pattern targetType)
  case Nil
  then show ?case by (simp add: io_return_def targetType_flags_def)
next
  case (Cons a args)
  show ?case
  proof (cases "flag a = Some ''t'' \<or> flag a = Some ''targetType''")
    case True
    with Cons.prems
    have "snd (search_args args pattern (or_null (val a))) = Inr (Some (pattern', targetType'))"
      by simp
    from Cons.IH[OF this] True show ?thesis
      by (simp add: targetType_flags_def)
  next
    case False
    note nt = False
    show ?thesis
    proof (cases "falsy (flag a) \<and> falsy pattern")
      case True
      with nt Cons.prems
      have "snd (search_args args (Some (or_else (val a) [])) targetType)
              = Inr (Some (pattern', targetType'))"
        by simp
      from Cons.IH[OF this] nt show ?thesis
        by (simp add: targetType_flags_def)
    next
      case False
      with nt Cons.prems show ?thesis
        by (simp add: io_return_def io_bind_def log_def)
    qed
  qed
qed

subsection \<open>Compiling the search pattern\<close>

lemma searchRegex_wrapped:
  assumes "startsWith pattern ''/'' \<and> endsWith pattern ''/''"
  shows "searchRegex env pattern =
           (case RegExp_error env (slice_1_m1 pattern) ''i'' of
              None \<Rightarrow> ([], Inr (Some (RegExp (slice_1_m1 pattern) ''i'')))
            | Some e \<Rightarrow> ([Log [Str ''Invalid regular expression.'']], Inr None))"
  using assms
  by (cases "RegExp_error env (slice_1_m1 pattern) ''i''")
     (simp_all add: searchRegex_def new_RegExp_def io_bind_def io_catch_def io_return_def
        io_throw_def log_def)

lemma searchRegex_literal:
  assumes "\<not> (startsWith pattern ''/'' \<and> endsWith pattern ''/'')"
  shows "searchRegex env pattern =
           (case RegExp_error env (escapeRegExp pattern) ''i'' of
              None \<Rightarrow> ([], Inr (Some (RegExp (escapeRegExp pattern) ''i'')))
            | Some e \<Rightarrow> ([], Inl e))"
proof -
  from assms have "searchRegex env pattern =
      io_bind (new_RegExp env (escapeRegExp pattern) ''i'') (\<lambda>regex. io_return (Some regex))"
    unfolding searchRegex_def by (rule if_not_P)
  then show ?thesis
    by (cases "RegExp_error env (escapeRegExp pattern) ''i''")
       (simp_all add: new_RegExp_def io_bind_def io_return_def io_throw_def)
qed

lemma searchRegex_compiles:
  assumes "RegExp_error env
             (if startsWith pattern ''/'' \<and> endsWith pattern ''/''
              then slice_1_m1 pattern else escapeRegExp pattern) ''i'' = None"
  shows "\<exists>re. searchRegex env pattern = ([], Inr (Some re))"
proof (cases "startsWith pattern ''/'' \<and> endsWith pattern ''/''")
  case True
  with assms show ?thesis by (simp add: searchRegex_wrapped)
next
  case False
  with assms show ?thesis by (simp add: searchRegex_literal)
qed

lemma literal_of_escapeRegExp: "literal_of (escapeRegExp pattern) = Some pattern"
proof (induction pattern)
  case Nil
  show ?case by (simp add: escapeRegExp_def)
next
  case (Cons c pattern)
  have step: "escapeRegExp (c # pattern)
                = (if c \<in> set metachars then [CHR 0x5C, c] else [c]) @ escapeRegExp pattern"
    by (simp add: escapeRegExp_def)
  have bs: "CHR 0x5C \<in> set metachars"
    by (simp add: metachars_def)
  show ?case
  proof (cases "c \<in> set metachars")
    case True
    then show ?thesis using Cons.IH step by simp
  next
    case False
    with bs have "c \<noteq> CHR 0x5C" by auto
    with False show ?thesis using Cons.IH step by simp
  qed
qed

lemma search_dot_star_literal:
  "searchRegex demo_env ''.*'' = ([], Inr (Some (RegExp [CHR 0x5C, CHR ''.'', CHR 0x5C, CHR ''*''] ''i'')))
   \<and> literal_of [CHR 0x5C, CHR ''.'', CHR 0x5C, CHR ''*''] = Some ''.*''"
  by code_simp

lemma search_no_contacts_returns:
  assumes regex: "searchRegex env pattern = ([], Inr (Some regex))"
    and unset: "falsy targetType"
    and names: "Contact_findAll env (ByName (Matching regex)) = Inr []"
    and aliases: "Contact_findAll env (ByAlias (Matching regex)) = Inr []"
  shows "search env pattern targetType
           = ([Log [Str (''Searching contacts using '' @ RegExp_source env regex @ '' ...'')],
               Lookup (ContactFindAll (ByName (Matching regex))),
               Lookup (ContactFindAll (ByAlias (Matching regex))),
               Log [Str ''No matching contacts found :('']],
              Inr ())"
proof -
  have "searchContacts env regex
          = ([Log [Str (''Searching contacts using '' @ RegExp_source env regex @ '' ...'')],
              Lookup (ContactFindAll (ByName (Matching regex))),
              Lookup (ContactFindAll (ByAlias (Matching regex))),
              Log [Str ''No matching contacts found :('']],
             Inr False)"
    using names aliases
    by (simp add: searchContacts_def io_bind_def log_def Promise_all2_def findAll_Contact_def
        io_return_def)
  then show ?thesis
    using regex unset by (simp add: search_def io_bind_def io_return_def)
qed

lemma searchRegex_renders_no_result:
  "list_all (\<lambda>ev. \<not> is_lookup ev \<and> \<not> is_table ev \<and> \<not> is_no_match ev)
     (fst (searchRegex env pattern))"
  by (simp add: searchRegex_def new_RegExp_def io_bind_def io_catch_def io_return_def
      io_throw_def log_def is_lookup_def is_table_def is_no_match_def split: option.splits)

lemma search_other_targetType_run:
  assumes "kind \<noteq> []" "kind \<noteq> ''room''" "kind \<noteq> ''contact''"
  shows "search env pattern (Some kind)
           = (fst (searchRegex env pattern),
              case snd (searchRegex env pattern) of Inl e \<Rightarrow> Inl e | Inr compiled \<Rightarrow> Inr ())"
proof -
  have other: "\<not> (falsy (Some kind) \<or> Some kind = Some ''contact'')"
              "\<not> (falsy (Some kind) \<or> Some kind = Some ''room'')"
    using assms by (simp_all add: falsy_def)
  show ?thesis
    unfolding search_def using other
    by (cases "searchRegex env pattern")
       (auto simp add: io_bind_def io_return_def split: sum.splits option.splits)
qed

subsection \<open>The reply-target resolver\<close>

text \<open>Every message context has one of four shapes.\<close>

lemma message_shapes:
  "(\<exists>r s l. ctx = \<lparr>room = Some r, self = s, listener = l\<rparr>)
   \<or> (\<exists>c. ctx = \<lparr>room = None, self = True, listener = Some c\<rparr>)
   \<or> ctx = \<lparr>room = None, self = True, listener = None\<rparr>
   \<or> (\<exists>l. ctx = \<lparr>room = None, self = False, listener = l\<rparr>)"
proof (cases ctx)
  case (fields r s l)
  then show ?thesis by (cases r; cases s; cases l) auto
qed

text \<open>
  Claim C1. Whatever the message context: with a room, the reply is one \<open>say\<close> on that
  room, whether the message is from self or not; without a room and from self, it is
  one \<open>say\<close> on the listener when there is one, and otherwise the error
  \<open>Message target cannot be resolved\<close> is thrown and nothing is said; without a room and
  not from self, it is one \<open>say\<close> on the message itself, which answers in the sender's
  direct conversation. The four shapes cover every context, and both files' \<open>respond\<close>
  behave so.
\<close>

theorem respond_target:
  "respond env \<lparr>room = Some r, self = s, listener = l\<rparr> response
     = ([Say (OnRoom r) response], say_result env (OnRoom r) response)
   \<and> respond env \<lparr>room = None, self = True, listener = Some c\<rparr> response
     = ([Say (OnContact c) response], say_result env (OnContact c) response)
   \<and> respond env \<lparr>room = None, self = True, listener = None\<rparr> response
     = ([], Inl (Error ''Message target cannot be resolved''))
   \<and> respond env \<lparr>room = None, self = False, listener = l\<rparr> response
     = ([Say (OnMessage \<lparr>room = None, self = False, listener = l\<rparr>) response],
        say_result env (OnMessage \<lparr>room = None, self = False, listener = l\<rparr>) response)
   \<and> respond_cli_chat env \<lparr>room = Some r, self = s, listener = l\<rparr> response
     = ([Say (OnRoom r) response], say_result env (OnRoom r) response)
   \<and> respond_cli_chat env \<lparr>room = None, self = True, listener = Some c\<rparr> response
     = ([Say (OnContact c) response], say_result env (OnContact c) response)
   \<and> respond_cli_chat env \<lparr>room = None, self = True, listener = None\<rparr> response
     = ([], Inl (Error ''Message target cannot be resolved''))
   \<and> respond_cli_chat env \<lparr>room = None, self = False, listener = l\<rparr> response
     = ([Say (OnMessage \<lparr>room = None, self = False, listener = l\<rparr>) response],
        say_result env (OnMessage \<lparr>room = None, self = False, listener = l\<rparr>) response)"
  by (simp add: respond_def respond_cli_chat_def say_def io_throw_def)

subsection \<open>The tokenizer\<close>

text \<open>
  Claim C3. The line \<^verbatim>\<open>send 'John Doe' -t contact -m 'hi there'\<close> gives exactly four
  tokens, in this order: the value \<open>send\<close>, the value \<open>John Doe\<close>, the flag \<open>t\<close> with the
  value \<open>contact\<close>, and the flag \<open>m\<close> with the value \<open>hi there\<close>; the field a token does
  not set is \<open>undefined\<close>. (\<open>CHR 0x27\<close> is the closing quote of the line.)
\<close>

theorem tokenize_example:
  "commandLineParser (''send 'John Doe' -t contact -m 'hi there'' @ [CHR 0x27])
     = [\<lparr>flag = None, val = Some ''send''\<rparr>,
        \<lparr>flag = None, val = Some ''John Doe''\<rparr>,
        \<lparr>flag = Some ''t'', val = Some ''contact''\<rparr>,
        \<lparr>flag = Some ''m'', val = Some ''hi there''\<rparr>]"
  by code_simp

text \<open>
  Claim C7 says that no token has both fields \<open>undefined\<close>, and that a line of white
  space gives no token. The function skips a match only when its whole text is empty;
  a match that is a run of spaces and nothing else is kept, with no flag and no value.
  That happens on the line \<open>a -\<close> (the space before a lone dash), which
  \<open>processCommand\<close> passes on unchanged, and on a line that is one space.
\<close>

theorem tokenize_blank_token:
  "commandLineParser ''a -'' = [\<lparr>flag = None, val = Some ''a''\<rparr>, \<lparr>flag = None, val = None\<rparr>]
   \<and> commandLineParser '' '' = [\<lparr>flag = None, val = None\<rparr>]"
  by code_simp

text \<open>
  Claim C9. The tokenizer of \<open>cli_chat.ts\<close> and the tokenizer of \<open>index.ts\<close> give the same
  tokens on every input.
\<close>

theorem commandLineParser_same:
  "commandLineParser_cli_chat command = commandLineParser command"
  by (simp add: commandLineParser_cli_chat_def commandLineParser_def
      argRegex_cli_chat_def argRegex_def)

subsection \<open>The send command\<close>

text \<open>
  Claim C4. Take a line whose first token has the value \<open>send\<close>, and the values the
  loop leaves in \<open>target\<close>, \<open>targetType\<close> and \<open>message\<close>. When the target or the message
  is missing (\<open>null\<close> or empty), the command logs the warnings of the loop and then the
  usage of \<open>send\<close>, completes, and makes no directory lookup and no \<open>say\<close>.
\<close>

theorem send_usage_error:
  assumes tokens: "commandLineParser (trim line) = first # rest"
    and send: "val first = Some ''send''"
    and vars: "snd (send_args rest None ''contact'' None) = Inr (target, targetType, message)"
    and missing: "falsy target \<or> falsy message"
  shows "processCommand env line
           = (fst (send_args rest None ''contact'' None) @ [Log [Str usage_send]], Inr ())
         \<and> list_all (\<lambda>ev. \<not> is_lookup ev \<and> \<not> is_say ev) (fst (processCommand env line))"
proof -
  let ?loop = "send_args rest None ''contact'' None"
  have "send_command env (first # rest) = (fst ?loop @ [Log [Str usage_send]], Inr ())"
    using vars missing by (simp add: send_command_def io_bind_def log_def)
  then have run: "processCommand env line = (fst ?loop @ [Log [Str usage_send]], Inr ())"
    using tokens send by (simp add: processCommand_def processArgs_def)
  have "list_all (\<lambda>ev. \<not> is_lookup ev \<and> \<not> is_say ev) (fst ?loop @ [Log [Str usage_send]])"
    using send_args_only_logs[of rest None "''contact''" None]
    by (simp add: is_lookup_def is_say_def)
  with run show ?thesis by simp
qed

text \<open>
  The line \<open>send Bob -t contact\<close>: the message is missing, and the usage is all that
  happens.
\<close>

theorem send_usage_error_witness:
  "commandLineParser (trim ''send Bob -t contact'')
     = \<lparr>flag = None, val = Some ''send''\<rparr>
       # [\<lparr>flag = None, val = Some ''Bob''\<rparr>, \<lparr>flag = Some ''t'', val = Some ''contact''\<rparr>]
   \<and> snd (send_args [\<lparr>flag = None, val = Some ''Bob''\<rparr>, \<lparr>flag = Some ''t'', val = Some ''contact''\<rparr>]
             None ''contact'' None) = Inr (Some ''Bob'', ''contact'', None)
   \<and> processCommand demo_env ''send Bob -t contact'' = ([Log [Str usage_send]], Inr ())
   \<and> list_all (\<lambda>ev. \<not> is_lookup ev \<and> \<not> is_say ev)
        (fst (processCommand demo_env ''send Bob -t contact''))"
proof -
  let ?rest = "[\<lparr>flag = None, val = Some ''Bob''\<rparr>, \<lparr>flag = Some ''t'', val = Some ''contact''\<rparr>]"
  have h1: "commandLineParser (trim ''send Bob -t contact'')
              = \<lparr>flag = None, val = Some ''send''\<rparr> # ?rest"
    by code_simp
  have h2: "val \<lparr>flag = None, val = Some ''send''\<rparr> = Some ''send''"
    by simp
  have h3: "snd (send_args ?rest None ''contact'' None) = Inr (Some ''Bob'', ''contact'', None)"
    by code_simp
  have h4: "falsy (Some ''Bob'') \<or> falsy None"
    by (simp add: falsy_def)
  have h5: "fst (send_args ?rest None ''contact'' None) = []"
    by code_simp
  note run = send_usage_error[OF h1 h2 h3 h4, of demo_env]
  from run have r1: "processCommand demo_env ''send Bob -t contact'' = ([Log [Str usage_send]], Inr ())"
    unfolding h5 append_Nil by (rule conjunct1)
  from run have r2: "list_all (\<lambda>ev. \<not> is_lookup ev \<and> \<not> is_say ev)
        (fst (processCommand demo_env ''send Bob -t contact''))"
    by (rule conjunct2)
  from h1 h3 r1 r2 show ?thesis by (intro conjI)
qed

text \<open>
  Claim C8, as stated, asks for a warning on every duplicate token. A second \<open>-m\<close> is
  not reported: on \<open>send Adam -m a -m b\<close> nothing is logged, and \<open>b\<close> is sent.
\<close>

theorem duplicate_message_not_reported:
  "commandLineParser (trim ''send Adam -m a -m b'')
     = [\<lparr>flag = None, val = Some ''send''\<rparr>, \<lparr>flag = None, val = Some ''Adam''\<rparr>,
        \<lparr>flag = Some ''m'', val = Some ''a''\<rparr>, \<lparr>flag = Some ''m'', val = Some ''b''\<rparr>]
   \<and> processCommand demo_env ''send Adam -m a -m b''
     = ([Lookup (ContactFind (ByName (Exact ''Adam''))), Say (OnContact adam) ''b''], Inr ())"
  by code_simp

text \<open>
  Claim C8, amended. Let \<open>target\<close>, \<open>targetType\<close> and \<open>message\<close> be what the loop holds
  after the tokens \<open>pre\<close>, and \<open>arg\<close> the next token. If \<open>arg\<close> is neither a \<open>-t\<close>/\<open>--targetType\<close>
  nor a \<open>-m\<close>/\<open>--message\<close> flag, and it has a flag or a target is already set, the loop
  logs the warning and the usage, leaves the three variables as they are, and goes on
  with the remaining tokens \<open>post\<close>. A \<open>-m\<close> or \<open>-t\<close> token is never reported, also when
  it repeats an earlier one: its value replaces the variable, and the loop goes on. The
  loop never throws.
\<close>

theorem send_args_token:
  assumes before: "snd (send_args pre None ''contact'' None) = Inr (target, targetType, message)"
  shows "(flag arg \<notin> {Some ''t'', Some ''targetType'', Some ''m'', Some ''message''}
            \<and> (truthy (flag arg) \<or> truthy target)
          \<longrightarrow> send_args (pre @ arg # post) None ''contact'' None
                = (fst (send_args pre None ''contact'' None)
                     @ [Log [Str ''Unknown option or too many targets:'', jsval_of (val arg)],
                        Log [Str usage_send]]
                     @ fst (send_args post target targetType message),
                   snd (send_args post target targetType message)))
       \<and> (flag arg \<in> {Some ''m'', Some ''message''}
          \<longrightarrow> send_args (pre @ arg # post) None ''contact'' None
                = (fst (send_args pre None ''contact'' None)
                     @ fst (send_args post target targetType (Some (or_else (val arg) []))),
                   snd (send_args post target targetType (Some (or_else (val arg) [])))))
       \<and> (flag arg \<in> {Some ''t'', Some ''targetType''}
          \<longrightarrow> send_args (pre @ arg # post) None ''contact'' None
                = (fst (send_args pre None ''contact'' None)
                     @ fst (send_args post target (or_else (val arg) ''contact'') message),
                   snd (send_args post target (or_else (val arg) ''contact'') message)))
       \<and> (\<exists>vars. snd (send_args (pre @ arg # post) None ''contact'' None) = Inr vars)"
proof (intro conjI impI)
  note split = send_args_after[OF before, of "arg # post"]
  {
    assume a: "flag arg \<notin> {Some ''t'', Some ''targetType'', Some ''m'', Some ''message''}
            \<and> (truthy (flag arg) \<or> truthy target)"
    then have "send_args (arg # post) target targetType message
                 = ([Log [Str ''Unknown option or too many targets:'', jsval_of (val arg)],
                     Log [Str usage_send]] @ fst (send_args post target targetType message),
                    snd (send_args post target targetType message))"
      using send_args_total[of post target targetType message]
      by (auto simp add: truthy_not_falsy io_bind_def log_def)
    with split
    show "send_args (pre @ arg # post) None ''contact'' None
                = (fst (send_args pre None ''contact'' None)
                     @ [Log [Str ''Unknown option or too many targets:'', jsval_of (val arg)],
                        Log [Str usage_send]]
                     @ fst (send_args post target targetType message),
                   snd (send_args post target targetType message))"
      by simp
  }
  {
    assume "flag arg \<in> {Some ''m'', Some ''message''}"
    then have "send_args (arg # post) target targetType message
                 = send_args post target targetType (Some (or_else (val arg) []))"
      by auto
    with split
    show "send_args (pre @ arg # post) None ''contact'' None
                = (fst (send_args pre None ''contact'' None)
                     @ fst (send_args post target targetType (Some (or_else (val arg) []))),
                   snd (send_args post target targetType (Some (or_else (val arg) []))))"
      by simp
  }
  {
    assume "flag arg \<in> {Some ''t'', Some ''targetType''}"
    then have "send_args (arg # post) target targetType message
                 = send_args post target (or_else (val arg) ''contact'') message"
      by auto
    with split
    show "send_args (pre @ arg # post) None ''contact'' None
                = (fst (send_args pre None ''contact'' None)
                     @ fst (send_args post target (or_else (val arg) ''contact'') message),
                   snd (send_args post target (or_else (val arg) ''contact'') message))"
      by simp
  }
  show "\<exists>vars. snd (send_args (pre @ arg # post) None ''contact'' None) = Inr vars"
    by (rule send_args_total)
qed

text \<open>
  A second positional token is reported and the \<open>-m\<close> after it still counts; a second
  \<open>-m\<close> replaces the first without a report.
\<close>

theorem send_args_token_witness:
  "send_args [\<lparr>flag = None, val = Some ''Adam''\<rparr>, \<lparr>flag = None, val = Some ''Bob''\<rparr>,
              \<lparr>flag = Some ''m'', val = Some ''hi''\<rparr>] None ''contact'' None
     = ([Log [Str ''Unknown option or too many targets:'', Str ''Bob''], Log [Str usage_send]],
        Inr (Some ''Adam'', ''contact'', Some ''hi''))
   \<and> send_args [\<lparr>flag = None, val = Some ''Adam''\<rparr>, \<lparr>flag = Some ''m'', val = Some ''a''\<rparr>,
                \<lparr>flag = Some ''m'', val = Some ''b''\<rparr>] None ''contact'' None
     = ([], Inr (Some ''Adam'', ''contact'', Some ''b''))"
proof -
  let ?adam = "\<lparr>flag = None, val = Some ''Adam''\<rparr>"
  let ?bob = "\<lparr>flag = None, val = Some ''Bob''\<rparr>"
  let ?hi = "\<lparr>flag = Some ''m'', val = Some ''hi''\<rparr>"
  let ?a = "\<lparr>flag = Some ''m'', val = Some ''a''\<rparr>"
  let ?b = "\<lparr>flag = Some ''m'', val = Some ''b''\<rparr>"
  have pre1: "snd (send_args [?adam] None ''contact'' None) = Inr (Some ''Adam'', ''contact'', None)"
    by code_simp
  have ev1: "fst (send_args [?adam] None ''contact'' None) = []"
    by code_simp
  have unknown: "flag ?bob \<notin> {Some ''t'', Some ''targetType'', Some ''m'', Some ''message''}
                 \<and> (truthy (flag ?bob) \<or> truthy (Some ''Adam''))"
    by (simp add: truthy_def)
  have post1: "send_args [?hi] (Some ''Adam'') ''contact'' None
                 = ([], Inr (Some ''Adam'', ''contact'', Some ''hi''))"
    by code_simp
  from send_args_token[OF pre1, of ?bob "[?hi]"] unknown
  have "send_args ([?adam] @ ?bob # [?hi]) None ''contact'' None
          = (fst (send_args [?adam] None ''contact'' None)
               @ [Log [Str ''Unknown option or too many targets:'', jsval_of (val ?bob)],
                  Log [Str usage_send]]
               @ fst (send_args [?hi] (Some ''Adam'') ''contact'' None),
             snd (send_args [?hi] (Some ''Adam'') ''contact'' None))"
    by blast
  then have first: "send_args [?adam, ?bob, ?hi] None ''contact'' None
     = ([Log [Str ''Unknown option or too many targets:'', Str ''Bob''], Log [Str usage_send]],
        Inr (Some ''Adam'', ''contact'', Some ''hi''))"
    unfolding ev1 post1 by (simp add: jsval_of_def)
  have pre2: "snd (send_args [?adam, ?a] None ''contact'' None)
                = Inr (Some ''Adam'', ''contact'', Some ''a'')"
    by code_simp
  have ev2: "fst (send_args [?adam, ?a] None ''contact'' None) = []"
    by code_simp
  have again: "flag ?b \<in> {Some ''m'', Some ''message''}"
    by simp
  have post2: "send_args [] (Some ''Adam'') ''contact'' (Some (or_else (val ?b) []))
                 = ([], Inr (Some ''Adam'', ''contact'', Some ''b''))"
    by code_simp
  from send_args_token[OF pre2, of ?b "[]"] again
  have "send_args ([?adam, ?a] @ ?b # []) None ''contact'' None
          = (fst (send_args [?adam, ?a] None ''contact'' None)
               @ fst (send_args [] (Some ''Adam'') ''contact'' (Some (or_else (val ?b) []))),
             snd (send_args [] (Some ''Adam'') ''contact'' (Some (or_else (val ?b) []))))"
    by blast
  then have second: "send_args [?adam, ?a, ?b] None ''contact'' None
     = ([], Inr (Some ''Adam'', ''contact'', Some ''b''))"
    unfolding ev2 post2 by simp
  from first second show ?thesis by (intro conjI)
qed

text \<open>
  On a whole line: two tokens are reported, and the message is still sent to the target.
\<close>

lemma send_after_warnings:
  "processCommand demo_env ''send Adam Bob -x -m hi''
     = ([Log [Str ''Unknown option or too many targets:'', Str ''Bob''],
         Log [Str usage_send],
         Log [Str ''Unknown option or too many targets:'', Undefined],
         Log [Str usage_send],
         Lookup (ContactFind (ByName (Exact ''Adam''))),
         Say (OnContact adam) ''hi''],
        Inr ())"
  by code_simp

subsection \<open>The search command\<close>

text \<open>
  Claim C2 says that with no target type the room search runs whatever the contact
  search found. In the example directory no contact matches \<open>Fam\<close> and the room
  \<open>Family\<close> does: \<open>search\<close> reports that no contact matches and returns, without
  asking the directory for the rooms, which the same search restricted to rooms finds.
\<close>

theorem search_skips_rooms:
  "search demo_env ''Fam'' None
     = ([Log [Str ''Searching contacts using Fam ...''],
         Lookup (ContactFindAll (ByName (Matching (RegExp ''Fam'' ''i'')))),
         Lookup (ContactFindAll (ByAlias (Matching (RegExp ''Fam'' ''i'')))),
         Log [Str ''No matching contacts found :('']],
        Inr ())
   \<and> Room_findAll demo_env (ByTopic (Matching (RegExp ''Fam'' ''i''))) = Inr [family]
   \<and> search demo_env ''Fam'' (Some ''room'')
     = ([Log [Str ''Searching rooms using Fam ...''],
         Lookup (RoomFindAll (ByTopic (Matching (RegExp ''Fam'' ''i'')))),
         Log [Str ''- Matched Rooms:''],
         Table (RoomRows [(''@@r1'', ''Family'')])],
        Inr ())"
  by code_simp

text \<open>
  Claim C5 says that only a pattern wrapped in a pair of slashes is compiled as it
  is. The one-character pattern \<open>/\<close> both starts and ends with a slash, so \<open>search\<close>
  compiles its empty interior, an expression that matches everything, where the escaped
  pattern would be \<open>/\<close> itself: the room \<open>Family\<close>, which contains no slash, is listed.
\<close>

theorem search_single_slash:
  "startsWith ''/'' ''/'' \<and> endsWith ''/'' ''/''
   \<and> searchRegex demo_env ''/'' = ([], Inr (Some (RegExp [] ''i'')))
   \<and> escapeRegExp ''/'' = ''/''
   \<and> search demo_env ''/'' (Some ''room'')
     = ([Log [Str ''Searching rooms using (?:) ...''],
         Lookup (RoomFindAll (ByTopic (Matching (RegExp [] ''i'')))),
         Log [Str ''- Matched Rooms:''],
         Table (RoomRows [(''@@r1'', ''Family'')])],
        Inr ())"
  by code_simp

text \<open>
  With a pattern that is given and compiles, and a target type that is a non-empty
  string other than \<open>room\<close> and \<open>contact\<close>, the \<open>search\<close> command has no event at all.
\<close>

lemma search_bad_targetType_silent:
  assumes tokens: "commandLineParser (trim line) = first # rest"
    and search: "val first = Some ''search''"
    and vars: "snd (search_args rest None None) = Inr (Some (Some pattern, Some kind))"
    and given: "pattern \<noteq> []"
    and other: "kind \<noteq> []" "kind \<noteq> ''room''" "kind \<noteq> ''contact''"
    and compiles: "RegExp_error env
                     (if startsWith pattern ''/'' \<and> endsWith pattern ''/''
                      then slice_1_m1 pattern else escapeRegExp pattern) ''i'' = None"
  shows "processCommand env line = ([], Inr ())"
proof -
  have quiet: "fst (search_args rest None None) = []"
    by (rule search_args_silent[OF vars])
  have loop: "search_args rest None None = ([], Inr (Some (Some pattern, Some kind)))"
    using quiet vars by (simp add: prod_eq_iff)
  from searchRegex_compiles[OF compiles]
  obtain re where re: "searchRegex env pattern = ([], Inr (Some re))" ..
  have "search env pattern (Some kind) = ([], Inr ())"
    using other by (simp add: search_def re io_bind_def io_return_def falsy_def)
  then have "search_command env (first # rest) = ([], Inr ())"
    using loop given
    by (simp add: search_command_def io_bind_def io_catch_def falsy_def or_else_def)
  then show ?thesis
    using tokens search by (simp add: processCommand_def processArgs_def)
qed

text \<open>
  Claim C10, as stated, excludes every output, a usage error included, as soon as the
  target type is not a known one. A line without a pattern still gets its usage error.
\<close>

theorem search_bad_targetType_usage_error:
  "commandLineParser (trim ''search -t foo'')
     = [\<lparr>flag = None, val = Some ''search''\<rparr>, \<lparr>flag = Some ''t'', val = Some ''foo''\<rparr>]
   \<and> processCommand demo_env ''search -t foo''
     = ([Log [Str ''Please provide a search pattern.''], Log [Str usage_search]], Inr ())"
  by code_simp

text \<open>
  Claim C10, amended. Take a line whose first token has the value \<open>search\<close> and whose
  last \<open>-t\<close>/\<open>--targetType\<close> token carries a non-empty value other than \<open>room\<close> and
  \<open>contact\<close>. Whatever else the line holds, the command makes no directory lookup and
  renders neither a table nor a \<open>No matching ...\<close> report. When moreover the loop ends
  with a non-empty pattern (so it has rejected no token) and the pattern compiles, the
  command renders nothing: it has no event at all.
\<close>

theorem search_other_targetType:
  assumes tokens: "commandLineParser (trim line) = first # rest"
    and search: "val first = Some ''search''"
    and flags: "targetType_flags rest \<noteq> []"
    and kind: "val (last (targetType_flags rest)) = Some kind"
    and other: "kind \<noteq> []" "kind \<noteq> ''room''" "kind \<noteq> ''contact''"
  shows "list_all (\<lambda>ev. \<not> is_lookup ev \<and> \<not> is_table ev \<and> \<not> is_no_match ev)
           (fst (processCommand env line))
         \<and> (\<forall>pattern targetType.
               snd (search_args rest None None) = Inr (Some (Some pattern, targetType))
               \<and> pattern \<noteq> []
               \<and> RegExp_error env
                    (if startsWith pattern ''/'' \<and> endsWith pattern ''/''
                     then slice_1_m1 pattern else escapeRegExp pattern) ''i'' = None
               \<longrightarrow> processCommand env line = ([], Inr ()))"
proof
  let ?Q = "\<lambda>ev. \<not> is_lookup ev \<and> \<not> is_table ev \<and> \<not> is_no_match ev"
  let ?loop = "search_args rest None None"
  have command: "processCommand env line = search_command env (first # rest)"
    using tokens search by (simp add: processCommand_def processArgs_def)
  obtain vars where vars: "snd ?loop = Inr vars"
    using search_args_total by blast
  have loop_events: "list_all ?Q (fst ?loop)"
    by (rule search_args_renders_no_result)
  show "list_all ?Q (fst (processCommand env line))"
  proof (cases vars)
    case None
    with vars have "fst (search_command env (first # rest)) = fst ?loop"
      by (simp add: search_command_def io_bind_def io_return_def)
    with loop_events command show ?thesis by simp
  next
    case (Some found)
    obtain pattern targetType where found: "found = (pattern, targetType)"
      by (cases found)
    from vars Some found have result: "snd ?loop = Inr (Some (pattern, targetType))"
      by simp
    from search_args_targetType[OF result] flags kind other(1)
    have targetType: "targetType = Some kind"
      by (simp add: or_null_def)
    show ?thesis
    proof (cases "falsy pattern")
      case True
      with result have "fst (search_command env (first # rest))
          = fst ?loop @ [Log [Str ''Please provide a search pattern.''], Log [Str usage_search]]"
        by (simp add: search_command_def io_bind_def log_def)
      with loop_events command show ?thesis
        by (simp add: is_lookup_def is_table_def is_no_match_def usage_search_def)
    next
      case False
      let ?regex = "searchRegex env (or_else pattern [])"
      have run: "search env (or_else pattern []) targetType
                   = (fst ?regex, case snd ?regex of Inl e \<Rightarrow> Inl e | Inr compiled \<Rightarrow> Inr ())"
        unfolding targetType by (rule search_other_targetType_run[OF other])
      have "\<exists>tail. fst (search_command env (first # rest)) = fst ?loop @ fst ?regex @ tail
                   \<and> list_all ?Q tail"
        using result False run
        by (cases "snd ?regex")
           (simp_all add: search_command_def io_bind_def io_catch_def log_def
              is_lookup_def is_table_def is_no_match_def)
      then obtain tail where
        "fst (search_command env (first # rest)) = fst ?loop @ fst ?regex @ tail"
        "list_all ?Q tail"
        by blast
      with loop_events searchRegex_renders_no_result[of env "or_else pattern []"] command
      show ?thesis by simp
    qed
  qed
  show "\<forall>pattern targetType.
               snd (search_args rest None None) = Inr (Some (Some pattern, targetType))
               \<and> pattern \<noteq> []
               \<and> RegExp_error env
                    (if startsWith pattern ''/'' \<and> endsWith pattern ''/''
                     then slice_1_m1 pattern else escapeRegExp pattern) ''i'' = None
               \<longrightarrow> processCommand env line = ([], Inr ())"
  proof (intro allI impI)
    fix pattern targetType
    assume a: "snd (search_args rest None None) = Inr (Some (Some pattern, targetType))
               \<and> pattern \<noteq> []
               \<and> RegExp_error env
                    (if startsWith pattern ''/'' \<and> endsWith pattern ''/''
                     then slice_1_m1 pattern else escapeRegExp pattern) ''i'' = None"
    then have result: "snd (search_args rest None None) = Inr (Some (Some pattern, targetType))"
      by simp
    from search_args_targetType[OF result] flags kind other(1)
    have "targetType = Some kind"
      by (simp add: or_null_def)
    with a have vars: "snd (search_args rest None None) = Inr (Some (Some pattern, Some kind))"
      by simp
    from a have given: "pattern \<noteq> []" and compiles: "RegExp_error env
                    (if startsWith pattern ''/'' \<and> endsWith pattern ''/''
                     then slice_1_m1 pattern else escapeRegExp pattern) ''i'' = None"
      by simp_all
    show "processCommand env line = ([], Inr ())"
      by (rule search_bad_targetType_silent[OF tokens search vars given other compiles])
  qed
qed

text \<open>
  The line \<open>search Fam -t foo\<close> is silent; the line \<open>search -t foo\<close>, which gets the
  usage error, still asks the directory nothing.
\<close>

theorem search_other_targetType_witness:
  "commandLineParser (trim ''search Fam -t foo'')
     = \<lparr>flag = None, val = Some ''search''\<rparr>
       # [\<lparr>flag = None, val = Some ''Fam''\<rparr>, \<lparr>flag = Some ''t'', val = Some ''foo''\<rparr>]
   \<and> processCommand demo_env ''search Fam -t foo'' = ([], Inr ())
   \<and> list_all (\<lambda>ev. \<not> is_lookup ev \<and> \<not> is_table ev \<and> \<not> is_no_match ev)
        (fst (processCommand demo_env ''search -t foo''))"
proof -
  let ?fam = "\<lparr>flag = None, val = Some ''Fam''\<rparr>"
  let ?foo = "\<lparr>flag = Some ''t'', val = Some ''foo''\<rparr>"
  let ?search = "\<lparr>flag = None, val = Some ''search''\<rparr>"
  have h1: "commandLineParser (trim ''search Fam -t foo'') = ?search # [?fam, ?foo]"
    by code_simp
  have h2: "val ?search = Some ''search''"
    by simp
  have h3: "targetType_flags [?fam, ?foo] \<noteq> []"
    by (simp add: targetType_flags_def)
  have h4: "val (last (targetType_flags [?fam, ?foo])) = Some ''foo''"
    by (simp add: targetType_flags_def)
  have h5: "''foo'' \<noteq> []" "''foo'' \<noteq> ''room''" "''foo'' \<noteq> ''contact''"
    by simp_all
  have loop: "snd (search_args [?fam, ?foo] None None) = Inr (Some (Some ''Fam'', Some ''foo''))"
    by code_simp
  have compiles: "RegExp_error demo_env
              (if startsWith ''Fam'' ''/'' \<and> endsWith ''Fam'' ''/''
               then slice_1_m1 ''Fam'' else escapeRegExp ''Fam'') ''i'' = None"
    by (simp add: demo_env_def)
  from search_other_targetType[OF h1 h2 h3 h4 h5, of demo_env] loop compiles
  have silent: "processCommand demo_env ''search Fam -t foo'' = ([], Inr ())"
    by blast
  have g1: "commandLineParser (trim ''search -t foo'') = ?search # [?foo]"
    by code_simp
  have g3: "targetType_flags [?foo] \<noteq> []"
    by (simp add: targetType_flags_def)
  have g4: "val (last (targetType_flags [?foo])) = Some ''foo''"
    by (simp add: targetType_flags_def)
  from search_other_targetType[OF g1 h2 g3 g4 h5, of demo_env]
  have quiet: "list_all (\<lambda>ev. \<not> is_lookup ev \<and> \<not> is_table ev \<and> \<not> is_no_match ev)
        (fst (processCommand demo_env ''search -t foo''))"
    by (rule conjunct1)
  from h1 silent quiet show ?thesis by (intro conjI)
qed

subsection \<open>Two lines on the console\<close>










end
